theory Spec2Isabelle
  imports Main "HOL-Library.AList"
begin

section \<open>JavaScript values\<close>

text \<open>
  The request body, the values held by the cache and the decoded upstream response are
  JavaScript values obtained from JSON. Numbers are integers or \<open>NaN\<close>: the middleware
  only ever tests a number for truthiness. An object is the list of its own properties
  in insertion order, with distinct keys.
\<close>

datatype json =
    JUndefined
  | JNull
  | JBool bool
  | JNum int
  | JNaN
  | JStr string
  | JArr "json list"
  | JObj "(string \<times> json) list"

text \<open>What JavaScript's \<open>if (v)\<close>, \<open>!v\<close> and \<open>a && b\<close> test.\<close>

fun truthy :: "json \<Rightarrow> bool" where
  "truthy JUndefined = False"
| "truthy JNull = False"
| "truthy (JBool b) = b"
| "truthy (JNum n) = (n \<noteq> 0)"
| "truthy JNaN = False"
| "truthy (JStr s) = (s \<noteq> [])"
| "truthy (JArr xs) = True"
| "truthy (JObj kvs) = True"

text \<open>
  An exception: the \<open>TypeError\<close> of reading a property of \<open>undefined\<close> or \<open>null\<close>, or
  whatever a collaborator (parser, printer, cache store, decoder) throws or rejects with.
\<close>

datatype error = TypeError | Thrown string

text \<open>
  \<open>v.k\<close> for the property names the middleware reads (\<open>query\<close>, \<open>variables\<close>,
  \<open>response\<close>, \<open>errors\<close>, \<open>data\<close>): a \<open>TypeError\<close> on \<open>undefined\<close> and \<open>null\<close>, the own
  property of an object, and \<open>undefined\<close> on every other value (a boolean, number, string
  or array has no property of these names).
\<close>

fun get_prop :: "json \<Rightarrow> string \<Rightarrow> error + json" where
  "get_prop JUndefined k = Inl TypeError"
| "get_prop JNull k = Inl TypeError"
| "get_prop (JObj kvs) k = Inr (case map_of kvs k of None \<Rightarrow> JUndefined | Some v \<Rightarrow> v)"
| "get_prop v k = Inr JUndefined"

text \<open>
  The object literal \<open>{ ...b, query: q }\<close>: the own properties of \<open>b\<close>, with \<open>query\<close>
  overwritten in place when \<open>b\<close> has it and added last otherwise. The spread of a
  primitive has no properties. (The spread of an array or a string would have index keys;
  the middleware only spreads a body whose \<open>query\<close> is truthy, which is an object: see
  \<open>truthy_prop_is_object\<close>.)
\<close>

fun spread_query :: "json \<Rightarrow> json \<Rightarrow> json" where
  "spread_query (JObj kvs) q = JObj (AList.update ''query'' q kvs)"
| "spread_query b q = JObj [(''query'', q)]"

section \<open>Requests, configuration, collaborators\<close>

text \<open>
  \<open>RequestWithCache\<close>: the Express request with the two annotations the middleware
  attaches, \<open>_hasCache\<close> and \<open>_bodyHash\<close> (\<open>None\<close> while the property is undefined).
  \<open>req_method\<close> is \<open>req.method\<close> and \<open>header\<close> is \<open>req.header(name)\<close>.
\<close>

record request =
  body :: json
  req_method :: string
  header :: "string \<Rightarrow> string option"
  req_hasCache :: "(string \<times> int) option"
  req_bodyHash :: "string option"

text \<open>The arguments of \<open>createProxyCacheMiddleware\<close>; \<open>globalTimeout\<close> defaults to 0.\<close>

record 'm config =
  cacheKeyModifier :: "'m option"
  cacheBypassHeader :: "string option"
  globalTimeout :: int

text \<open>
  The functions the middleware imports: \<open>parse\<close> and \<open>print\<close> (graphql),
  \<open>hasDirectives\<close> applied to \<open>[DIRECTIVE]\<close> (apollo-utilities), \<open>removeCacheDirective\<close>
  and \<open>calculateArguments\<close> (utils-browser-only), \<open>decode\<close> (utils), \<open>JSON.stringify\<close>,
  \<open>JSON.parse\<close> and the md5 hex digest. They are parameters; those that can throw return
  a sum.
\<close>

record ('doc, 'm, 'res) env =
  parse :: "json \<Rightarrow> error + 'doc"
  hasDirectives :: "'doc \<Rightarrow> bool"
  removeCacheDirective :: "'doc \<Rightarrow> error + 'doc"
  calculateArguments :: "'doc \<Rightarrow> json \<Rightarrow> 'm option \<Rightarrow> request \<Rightarrow> error + (string \<times> int)"
  print :: "'doc \<Rightarrow> error + string"
  stringify :: "json \<Rightarrow> string"
  md5_hex :: "string \<Rightarrow> string"
  json_parse :: "json \<Rightarrow> error + json"
  decode :: "'res \<Rightarrow> error + string"

text \<open>
  The \<open>Cache<string, any>\<close> interface over a store state \<open>'s\<close>: every operation returns
  the new state and either the value the promise resolves to or the error it rejects
  with.
\<close>

record 's cache =
  delete :: "string \<Rightarrow> 's \<Rightarrow> (error + bool) \<times> 's"
  get :: "string \<Rightarrow> 's \<Rightarrow> (error + json) \<times> 's"
  hget :: "string \<Rightarrow> 's \<Rightarrow> (error + json) \<times> 's"
  set_c :: "string \<Rightarrow> json \<Rightarrow> int \<Rightarrow> 's \<Rightarrow> (error + unit) \<times> 's"
  hset :: "string \<Rightarrow> string \<Rightarrow> string \<Rightarrow> int \<Rightarrow> 's \<Rightarrow> (error + unit) \<times> 's"

section \<open>Observable behaviour\<close>

text \<open>The calls a handler makes on the cache, with their arguments.\<close>

datatype call =
    CGet string
  | CSet string json int
  | CHGet string
  | CHSet string string string int

text \<open>
  What a handler does besides returning: the console warning, a report to \<open>errorOnGet\<close>
  or \<open>errorOnSet\<close>, a cache call, the invocation of the upstream with the body written
  to it, the user's own \<open>onProxyRes\<close> hook.
\<close>

datatype effect =
    Warn
  | ErrorOnGet error
  | ErrorOnSet error
  | Call call
  | Upstream "string option"
  | UserOnProxyRes

text \<open>
  How a request-time handler ends: it calls \<open>next()\<close> with the request as it then
  stands, it answers with \<open>response.json\<close> after setting headers, or its promise rejects
  (neither \<open>next\<close> nor the response is reached).
\<close>

datatype outcome =
    Next request
  | Responded "(string \<times> string) list" json
  | Rejected error

definition CACHE_HEADER :: string where
  "CACHE_HEADER = ''X-Proxy-Cached''"

definition CACHE_HASH_HEADER :: string where
  "CACHE_HASH_HEADER = ''X-Proxy-Hash''"

fun calls :: "effect list \<Rightarrow> call list" where
  "calls [] = []"
| "calls (Call c # es) = c # calls es"
| "calls (e # es) = calls es"

text \<open>The keys of the scalar-store calls and of the hash-store calls, in order.\<close>

fun scalar_keys :: "effect list \<Rightarrow> string list" where
  "scalar_keys [] = []"
| "scalar_keys (Call (CGet k) # es) = k # scalar_keys es"
| "scalar_keys (Call (CSet k v t) # es) = k # scalar_keys es"
| "scalar_keys (e # es) = scalar_keys es"

fun hash_keys :: "effect list \<Rightarrow> string list" where
  "hash_keys [] = []"
| "hash_keys (Call (CHGet k) # es) = k # hash_keys es"
| "hash_keys (Call (CHSet k f v t) # es) = k # hash_keys es"
| "hash_keys (e # es) = hash_keys es"

section \<open>The directive phase\<close>

text \<open>
  The \<open>try\<close> block of \<open>directiveMiddleware\<close> (lines 49 to 65). The first component is
  \<open>Inl e\<close> when \<open>e\<close> is thrown, \<open>Inr (Some out)\<close> when the block returns the cached answer
  and \<open>Inr None\<close> when it runs to its end; the second is the request as the block leaves
  it.
\<close>

definition directiveTry ::
  "('doc, 'm, 'res) env \<Rightarrow> 'm config \<Rightarrow> 's cache \<Rightarrow> request \<Rightarrow> 'doc \<Rightarrow> 's
    \<Rightarrow> (error + outcome option) \<times> request \<times> 's \<times> effect list" where
  "directiveTry env cfg c req doc s =
    (case removeCacheDirective env doc of
      Inl e \<Rightarrow> (Inl e, req, s, [])
    | Inr nextQuery \<Rightarrow>
      (case get_prop (body req) ''variables'' of
        Inl e \<Rightarrow> (Inl e, req, s, [])
      | Inr variables \<Rightarrow>
        (case calculateArguments env doc variables (cacheKeyModifier cfg) req of
          Inl e \<Rightarrow> (Inl e, req, s, [])
        | Inr (id', timeout) \<Rightarrow>
          (case get c id' s of
            (Inl e, s1) \<Rightarrow> (Inl e, req, s1, [Call (CGet id')])
          | (Inr possibleData, s1) \<Rightarrow>
            if truthy possibleData
            then (Inr (Some (Responded [(CACHE_HEADER, ''true'')]
                               (JObj [(''data'', possibleData)]))),
                  req, s1, [Call (CGet id')])
            else
              (let req1 = req\<lparr>req_hasCache := Some (id', timeout)\<rparr> in
               case print env nextQuery of
                 Inl e \<Rightarrow> (Inl e, req1, s1, [Call (CGet id')])
               | Inr text \<Rightarrow>
                   (Inr None, req1\<lparr>body := spread_query (body req1) (JStr text)\<rparr>,
                    s1, [Call (CGet id')]))))))"

definition directiveMiddleware ::
  "('doc, 'm, 'res) env \<Rightarrow> 'm config \<Rightarrow> 's cache \<Rightarrow> request \<Rightarrow> 's
    \<Rightarrow> outcome \<times> 's \<times> effect list" where
  "directiveMiddleware env cfg c req s =
    (if \<not> truthy (body req) \<and> req_method req = ''POST'' then (Next req, s, [Warn])
     else
      (case get_prop (body req) ''query'' of
        Inl e \<Rightarrow> (Rejected e, s, [])
      | Inr query \<Rightarrow>
        if \<not> truthy query then (Next req, s, [])
        else
          (case parse env query of
            Inl e \<Rightarrow> (Rejected e, s, [])
          | Inr doc \<Rightarrow>
            if hasDirectives env doc then
              (case directiveTry env cfg c req doc s of
                (Inl e, req', s', effs) \<Rightarrow> (Next req', s', effs @ [ErrorOnGet e])
              | (Inr (Some out), req', s', effs) \<Rightarrow> (out, s', effs)
              | (Inr None, req', s', effs) \<Rightarrow> (Next req', s', effs))
            else (Next req, s, []))))"

section \<open>The hash phase\<close>

text \<open>\<open>cacheBypassHeader && req.header(cacheBypassHeader)\<close>, as a truth value.\<close>

definition bypass :: "'m config \<Rightarrow> request \<Rightarrow> bool" where
  "bypass cfg req =
    (case cacheBypassHeader cfg of
      None \<Rightarrow> False
    | Some name \<Rightarrow>
        name \<noteq> [] \<and> (case header req name of None \<Rightarrow> False | Some v \<Rightarrow> v \<noteq> []))"

text \<open>
  \<open>hashMiddleware\<close>; \<open>now\<close> is what \<open>new Date().toISOString()\<close> reads when the handler
  runs.
\<close>

definition hashMiddleware ::
  "('doc, 'm, 'res) env \<Rightarrow> 'm config \<Rightarrow> 's cache \<Rightarrow> string \<Rightarrow> request \<Rightarrow> 's
    \<Rightarrow> outcome \<times> 's \<times> effect list" where
  "hashMiddleware env cfg c now req s =
    (if \<not> truthy (body req) \<and> req_method req = ''POST'' then (Next req, s, [Warn])
     else
      (case get_prop (body req) ''query'' of
        Inl e \<Rightarrow> (Rejected e, s, [])
      | Inr query \<Rightarrow>
        if \<not> truthy query \<or> bypass cfg req then (Next req, s, [])
        else
          (let bodyJson = stringify env (body req);
               bodyHash = md5_hex env bodyJson;
               req1 = req\<lparr>req_bodyHash := Some bodyHash\<rparr>;
               w = Call (CHSet bodyHash ''lastRequested'' now (globalTimeout cfg)) in
           case hset c bodyHash ''lastRequested'' now (globalTimeout cfg) s of
             (Inl e, s1) \<Rightarrow> (Rejected e, s1, [w])
           | (Inr u, s1) \<Rightarrow>
             (case hget c bodyHash s1 of
               (Inl e, s2) \<Rightarrow> (Rejected e, s2, [w, Call (CHGet bodyHash)])
             | (Inr cachedQuery, s2) \<Rightarrow>
               if \<not> truthy cachedQuery then (Next req1, s2, [w, Call (CHGet bodyHash)])
               else
                 (case get_prop cachedQuery ''response'' of
                   Inl e \<Rightarrow> (Rejected e, s2, [w, Call (CHGet bodyHash)])
                 | Inr r \<Rightarrow>
                   if \<not> truthy r then (Next req1, s2, [w, Call (CHGet bodyHash)])
                   else
                     (case json_parse env r of
                       Inl e \<Rightarrow> (Rejected e, s2, [w, Call (CHGet bodyHash)])
                     | Inr d \<Rightarrow>
                         (Responded [(CACHE_HEADER, ''true''), (CACHE_HASH_HEADER, bodyHash)]
                            (JObj [(''data'', d)]),
                          s2, [w, Call (CHGet bodyHash)])))))))"

section \<open>The proxy stage\<close>

text \<open>
  \<open>onProxyReq\<close>: the body the proxy writes to the upstream, \<open>JSON.stringify(req.body)\<close>
  when the body and the string are truthy. (The \<open>Content-Length\<close> header and the proxy
  configuration's own \<open>onProxyReq\<close> are left out: no cache decision reads them.)
\<close>

definition onProxyReq :: "('doc, 'm, 'res) env \<Rightarrow> request \<Rightarrow> string option" where
  "onProxyReq env req =
    (if truthy (body req)
     then (let data = stringify env (body req) in if data \<noteq> [] then Some data else None)
     else None)"

text \<open>\<open>if (bodyHash)\<close> on the \<open>_bodyHash\<close> annotation.\<close>

definition truthy_hash :: "string option \<Rightarrow> bool" where
  "truthy_hash h = (case h of None \<Rightarrow> False | Some x \<Rightarrow> x \<noteq> [])"

text \<open>
  The hash strategy's write (lines 139 and 140): the \<open>request\<close> field, then the
  \<open>response\<close> field, the second only when the first write did not reject.
\<close>

definition hashWrite ::
  "('doc, 'm, 'res) env \<Rightarrow> 'm config \<Rightarrow> 's cache \<Rightarrow> request \<Rightarrow> string \<Rightarrow> json \<Rightarrow> 's
    \<Rightarrow> (error + unit) \<times> 's \<times> effect list" where
  "hashWrite env cfg c req bodyHash data s =
    (let w1 = Call (CHSet bodyHash ''request'' (stringify env (body req)) (globalTimeout cfg));
         w2 = Call (CHSet bodyHash ''response'' (stringify env data) (globalTimeout cfg)) in
     case hset c bodyHash ''request'' (stringify env (body req)) (globalTimeout cfg) s of
       (Inl e, s1) \<Rightarrow> (Inl e, s1, [w1])
     | (Inr u, s1) \<Rightarrow>
       (case hset c bodyHash ''response'' (stringify env data) (globalTimeout cfg) s1 of
         (Inl e, s2) \<Rightarrow> (Inl e, s2, [w1, w2])
       | (Inr u', s2) \<Rightarrow> (Inr (), s2, [w1, w2])))"

text \<open>
  The directive strategy's write (line 142); reading \<open>hasCache.id\<close> of an undefined
  \<open>hasCache\<close> is a \<open>TypeError\<close>.
\<close>

definition directiveWrite ::
  "'s cache \<Rightarrow> (string \<times> int) option \<Rightarrow> json \<Rightarrow> 's \<Rightarrow> (error + unit) \<times> 's \<times> effect list" where
  "directiveWrite c hasCache data s =
    (case hasCache of
      None \<Rightarrow> (Inl TypeError, s, [])
    | Some (id', timeout) \<Rightarrow>
      (case set_c c id' data timeout s of
        (Inl e, s1) \<Rightarrow> (Inl e, s1, [Call (CSet id' data timeout)])
      | (Inr u, s1) \<Rightarrow> (Inr (), s1, [Call (CSet id' data timeout)])))"

text \<open>Line 135: \<open>JSON.parse(await decode(proxyRes))\<close>.\<close>

definition decoded :: "('doc, 'm, 'res) env \<Rightarrow> 'res \<Rightarrow> error + json" where
  "decoded env proxyRes =
    (case decode env proxyRes of
      Inl e \<Rightarrow> Inl e
    | Inr text \<Rightarrow> json_parse env (JStr text))"

text \<open>
  Line 137: \<open>!response.errors && response.data\<close>, as a truth value; \<open>response.data\<close> is
  read only when \<open>response.errors\<close> is falsy.
\<close>

definition cacheable :: "json \<Rightarrow> error + bool" where
  "cacheable response =
    (case get_prop response ''errors'' of
      Inl e \<Rightarrow> Inl e
    | Inr errors \<Rightarrow>
        if truthy errors then Inr False
        else (case get_prop response ''data'' of
               Inl e \<Rightarrow> Inl e
             | Inr data \<Rightarrow> Inr (truthy data)))"

text \<open>
  The \<open>try\<close> block of \<open>onProxyRes\<close> (lines 135 to 144): \<open>Inl e\<close> when \<open>e\<close> is thrown,
  \<open>Inr ()\<close> when the block runs to its end.
\<close>

definition writeTry ::
  "('doc, 'm, 'res) env \<Rightarrow> 'm config \<Rightarrow> 's cache \<Rightarrow> request \<Rightarrow> 'res \<Rightarrow> 's
    \<Rightarrow> (error + unit) \<times> 's \<times> effect list" where
  "writeTry env cfg c req proxyRes s =
    (case decoded env proxyRes of
      Inl e \<Rightarrow> (Inl e, s, [])
    | Inr response \<Rightarrow>
      (case cacheable response of
        Inl e \<Rightarrow> (Inl e, s, [])
      | Inr ok \<Rightarrow>
        if \<not> ok then (Inr (), s, [])
        else
          (case get_prop response ''data'' of
            Inl e \<Rightarrow> (Inl e, s, [])
          | Inr data \<Rightarrow>
            (case req_bodyHash req of
              None \<Rightarrow> directiveWrite c (req_hasCache req) data s
            | Some bodyHash \<Rightarrow>
                if bodyHash \<noteq> [] then hashWrite env cfg c req bodyHash data s
                else directiveWrite c (req_hasCache req) data s))))"

text \<open>
  \<open>onProxyRes\<close>; \<open>hook\<close> says whether the proxy configuration has an \<open>onProxyRes\<close> of its
  own, which is called last.
\<close>

definition onProxyRes ::
  "('doc, 'm, 'res) env \<Rightarrow> 'm config \<Rightarrow> bool \<Rightarrow> 's cache \<Rightarrow> request \<Rightarrow> 'res \<Rightarrow> 's
    \<Rightarrow> 's \<times> effect list" where
  "onProxyRes env cfg hook c req proxyRes s =
    (let (s', effs) =
       (if req_hasCache req \<noteq> None \<or> truthy_hash (req_bodyHash req) then
          (case writeTry env cfg c req proxyRes s of
            (Inl e, s1, effs) \<Rightarrow> (s1, effs @ [ErrorOnSet e])
          | (Inr u, s1, effs) \<Rightarrow> (s1, effs))
        else (s, []))
     in (s', effs @ (if hook then [UserOnProxyRes] else [])))"

section \<open>A request's lifecycle\<close>

text \<open>
  What the caller gets: an answer from the cache, the upstream's reply relayed, or
  nothing when a handler's promise was rejected.
\<close>

datatype 'res served =
    FromCache "(string \<times> string) list" json
  | Relayed 'res
  | Failed error

text \<open>
  Modelled from the spec: http-proxy-middleware, which calls the two hooks, is not among
  the repository's files. A request that reaches the proxy is written to the upstream
  (\<open>onProxyReq\<close>), and \<open>onProxyRes\<close> runs on the upstream's reply before it is relayed.
  The upstream is a function of the body written to it.
\<close>

definition proxyStage ::
  "('doc, 'm, 'res) env \<Rightarrow> 'm config \<Rightarrow> bool \<Rightarrow> 's cache \<Rightarrow> (string option \<Rightarrow> 'res)
    \<Rightarrow> request \<Rightarrow> 's \<Rightarrow> 'res served \<times> 's \<times> effect list" where
  "proxyStage env cfg hook c upstream req s =
    (let sent = onProxyReq env req;
         proxyRes = upstream sent in
     case onProxyRes env cfg hook c req proxyRes s of
       (s', effs) \<Rightarrow> (Relayed proxyRes, s', Upstream sent # effs))"

text \<open>
  Modelled from the spec: the application's router, which mounts the handlers that
  \<open>createProxyCacheMiddleware\<close> returns, is not among the repository's files. The hash
  phase either answers the request or hands it to the proxy; a rejected handler serves
  nothing.
\<close>

definition hashStage ::
  "('doc, 'm, 'res) env \<Rightarrow> 'm config \<Rightarrow> bool \<Rightarrow> 's cache \<Rightarrow> string
    \<Rightarrow> (string option \<Rightarrow> 'res) \<Rightarrow> request \<Rightarrow> 's \<Rightarrow> 'res served \<times> 's \<times> effect list" where
  "hashStage env cfg hook c now upstream req s =
    (case hashMiddleware env cfg c now req s of
      (Next req1, s1, effs1) \<Rightarrow>
        (case proxyStage env cfg hook c upstream req1 s1 of
          (out, s2, effs2) \<Rightarrow> (out, s2, effs1 @ effs2))
    | (Responded hs b, s1, effs1) \<Rightarrow> (FromCache hs b, s1, effs1)
    | (Rejected e, s1, effs1) \<Rightarrow> (Failed e, s1, effs1))"

text \<open>
  Modelled from the spec: the order in which the router runs the handlers. The directive
  phase runs before the hash phase, and either may answer the request.
\<close>

definition handle ::
  "('doc, 'm, 'res) env \<Rightarrow> 'm config \<Rightarrow> bool \<Rightarrow> 's cache \<Rightarrow> string
    \<Rightarrow> (string option \<Rightarrow> 'res) \<Rightarrow> request \<Rightarrow> 's \<Rightarrow> 'res served \<times> 's \<times> effect list" where
  "handle env cfg hook c now upstream req s =
    (case directiveMiddleware env cfg c req s of
      (Next req1, s1, effs1) \<Rightarrow>
        (case hashStage env cfg hook c now upstream req1 s1 of
          (out, s2, effs2) \<Rightarrow> (out, s2, effs1 @ effs2))
    | (Responded hs b, s1, effs1) \<Rightarrow> (FromCache hs b, s1, effs1)
    | (Rejected e, s1, effs1) \<Rightarrow> (Failed e, s1, effs1))"

section \<open>A cache store\<close>

text \<open>
  The state of an in-memory store: scalar entries and hash records, each with the expiry
  duration it was last written with.
\<close>

record mem =
  scalars :: "(string \<times> json \<times> int) list"
  hashes :: "(string \<times> (string \<times> string) list \<times> int) list"

definition fields_of :: "mem \<Rightarrow> string \<Rightarrow> (string \<times> string) list" where
  "fields_of s k = (case map_of (hashes s) k of None \<Rightarrow> [] | Some (fs, t) \<Rightarrow> fs)"

definition put_field :: "string \<Rightarrow> string \<Rightarrow> string \<Rightarrow> int \<Rightarrow> mem \<Rightarrow> mem" where
  "put_field k f v t s =
    s\<lparr>hashes := AList.update k (AList.update f v (fields_of s k), t) (hashes s)\<rparr>"

definition record_of :: "mem \<Rightarrow> string \<Rightarrow> json" where
  "record_of s k =
    (case map_of (hashes s) k of
      None \<Rightarrow> JUndefined
    | Some (fs, t) \<Rightarrow> JObj (map (\<lambda>(f, v). (f, JStr v)) fs))"

text \<open>
  Modelled from the spec: the repository's cache backends implement the \<open>Cache\<close>
  interface but are not among its files. This is the store of the spec's CacheStore
  contract: \<open>get\<close> and \<open>hget\<close> give \<open>undefined\<close> for an absent key, \<open>set\<close> overwrites
  a scalar entry, \<open>hset\<close> writes one field of a record and keeps the others, \<open>delete\<close>
  says whether something was removed. No operation fails, and no entry expires: the
  passing of time is not modelled.
\<close>

definition mem_cache :: "mem cache" where
  "mem_cache =
    \<lparr> delete = (\<lambda>k s.
        (Inr (map_of (scalars s) k \<noteq> None \<or> map_of (hashes s) k \<noteq> None),
         s\<lparr>scalars := AList.delete k (scalars s), hashes := AList.delete k (hashes s)\<rparr>)),
      get = (\<lambda>k s.
        (Inr (case map_of (scalars s) k of None \<Rightarrow> JUndefined | Some (v, t) \<Rightarrow> v), s)),
      hget = (\<lambda>k s. (Inr (record_of s k), s)),
      set_c = (\<lambda>k v t s. (Inr (), s\<lparr>scalars := AList.update k (v, t) (scalars s)\<rparr>)),
      hset = (\<lambda>k f v t s. (Inr (), put_field k f v t s)) \<rparr>"

text \<open>The fields the in-memory store holds under a key, as a map.\<close>

definition mem_fields :: "mem \<Rightarrow> string \<Rightarrow> string \<Rightarrow> string option" where
  "mem_fields s k = map_of (fields_of s k)"

text \<open>
  Modelled from the spec: what the CacheStore contract promises of hash records, for any
  implementation of the \<open>Cache\<close> interface (the repository's backends are not among its
  files). \<open>view s k\<close> are the fields the store holds under the key \<open>k\<close> in state \<open>s\<close>.
  \<open>hset\<close> resolves and writes the one field of the one key; \<open>hget\<close> resolves, changes no
  field, and gives the record of the key: a value whose properties are the fields, as
  strings. For a key with no field it may also give a falsy value (absent).
\<close>

definition hash_contract ::
  "'s cache \<Rightarrow> ('s \<Rightarrow> string \<Rightarrow> string \<Rightarrow> string option) \<Rightarrow> bool" where
  "hash_contract c view =
    ((\<forall>k f v t s. \<exists>s'. hset c k f v t s = (Inr (), s') \<and> view s' k = (view s k)(f \<mapsto> v))
     \<and> (\<forall>k s. \<exists>r s'. hget c k s = (Inr r, s') \<and> view s' = view s
            \<and> (if view s k = Map.empty
                then \<not> truthy r \<or> (\<forall>f. get_prop r f = Inr JUndefined)
                else truthy r \<and> (\<forall>f. get_prop r f =
                       Inr (case view s k f of None \<Rightarrow> JUndefined | Some v \<Rightarrow> JStr v)))))"

definition empty_mem :: mem where
  "empty_mem = \<lparr> scalars = [], hashes = [] \<rparr>"

text \<open>A store that is down: every operation rejects.\<close>

definition broken_cache :: "unit cache" where
  "broken_cache =
    \<lparr> delete = (\<lambda>k s. (Inl (Thrown ''ECONNREFUSED''), s)),
      get = (\<lambda>k s. (Inl (Thrown ''ECONNREFUSED''), s)),
      hget = (\<lambda>k s. (Inl (Thrown ''ECONNREFUSED''), s)),
      set_c = (\<lambda>k v t s. (Inl (Thrown ''ECONNREFUSED''), s)),
      hset = (\<lambda>k f v t s. (Inl (Thrown ''ECONNREFUSED''), s)) \<rparr>"

section \<open>Concrete collaborators and requests\<close>

text \<open>
  Small stand-ins for the imported functions, used to run the handlers on concrete
  requests. A document is its query text; the only annotated query is \<open>annotated\<close>,
  whose directive declares the id \<open>abc\<close> and the timeout 60 and which prints as
  \<open>plain\<close> once the directive is removed; \<open>{\<close> does not parse. Serialisation and its
  inverse are tables over the values that occur; the digest is tagged text.
\<close>

definition annotated :: string where
  "annotated = ''{ x @cache(id: abc, timeout: 60) }''"

definition plain :: string where
  "plain = ''{ x }''"

definition payload :: json where
  "payload = JObj [(''x'', JNum 1)]"

definition demo_stringify :: "json \<Rightarrow> string" where
  "demo_stringify v =
    (if v = JObj [(''query'', JStr annotated)] then ''{query:'' @ annotated @ ''}''
     else if v = JObj [(''query'', JStr plain)] then ''{query:'' @ plain @ ''}''
     else if v = payload then ''{x:1}''
     else if v = JObj [] then ''{}''
     else ''null'')"

definition demo_json_parse :: "json \<Rightarrow> error + json" where
  "demo_json_parse v =
    (if v = JStr ''{x:1}'' then Inr payload
     else if v = JStr ''{data:{x:1}}'' then Inr (JObj [(''data'', payload)])
     else if v = JStr ''{errors:[oops],data:{x:1}}''
       then Inr (JObj [(''errors'', JArr [JStr ''oops'']), (''data'', payload)])
     else if v = JStr ''{data:null}'' then Inr (JObj [(''data'', JNull)])
     else if v = JStr ''{data:{}}'' then Inr (JObj [(''data'', JObj [])])
     else if v = JStr ''{errors:null,data:{x:1}}''
       then Inr (JObj [(''errors'', JNull), (''data'', payload)])
     else Inl (Thrown ''SyntaxError''))"

definition demo_env :: "(string, unit, string) env" where
  "demo_env =
    \<lparr> parse = (\<lambda>q. case q of
                  JStr t \<Rightarrow> if t = ''{'' then Inl (Thrown ''Syntax Error'') else Inr t
                | _ \<Rightarrow> Inl (Thrown ''Syntax Error'')),
      hasDirectives = (\<lambda>doc. doc = annotated),
      removeCacheDirective = (\<lambda>doc. Inr (if doc = annotated then plain else doc)),
      calculateArguments = (\<lambda>doc variables modifier req. Inr (''abc'', 60)),
      print = (\<lambda>doc. Inr doc),
      stringify = demo_stringify,
      md5_hex = (\<lambda>text. ''md5 '' @ text),
      json_parse = demo_json_parse,
      decode = (\<lambda>proxyRes. Inr proxyRes) \<rparr>"

definition demo_cfg :: "unit config" where
  "demo_cfg = \<lparr> cacheKeyModifier = None, cacheBypassHeader = None, globalTimeout = 0 \<rparr>"

definition post :: "json \<Rightarrow> request" where
  "post b = \<lparr> body = b, req_method = ''POST'', header = (\<lambda>name. None),
              req_hasCache = None, req_bodyHash = None \<rparr>"

definition get_without_body :: request where
  "get_without_body = \<lparr> body = JUndefined, req_method = ''GET'', header = (\<lambda>name. None),
                         req_hasCache = None, req_bodyHash = None \<rparr>"

text \<open>
  The requests and replies of the examples: a query without the annotation, the
  annotated query, a request carrying both annotations, an upstream that always
  answers with the payload, one that answers with an error envelope and one that answers
  with no data; a store whose reads reject while its writes succeed.
\<close>

definition plain_req :: request where
  "plain_req = post (JObj [(''query'', JStr plain)])"

definition annotated_req :: request where
  "annotated_req = post (JObj [(''query'', JStr annotated)])"

definition plain_hash :: string where
  "plain_hash = ''md5 {query:{ x }}''"

definition both_req :: request where
  "both_req = plain_req\<lparr>req_hasCache := Some (''abc'', 60), req_bodyHash := Some plain_hash\<rparr>"

definition ok_reply :: string where
  "ok_reply = ''{data:{x:1}}''"

definition error_reply :: string where
  "error_reply = ''{errors:[oops],data:{x:1}}''"

definition empty_reply :: string where
  "empty_reply = ''{data:null}''"

text \<open>
  A request that carries only the directive's pending state; an upstream reply whose
  payload is the empty object, and one whose \<open>errors\<close> field is present and null.
\<close>

definition pending_req :: request where
  "pending_req = plain_req\<lparr>req_hasCache := Some (''abc'', 60)\<rparr>"

definition empty_object_reply :: string where
  "empty_object_reply = ''{data:{}}''"

definition null_errors_reply :: string where
  "null_errors_reply = ''{errors:null,data:{x:1}}''"

definition unreadable_cache :: "unit cache" where
  "unreadable_cache =
    \<lparr> delete = (\<lambda>k s. (Inr False, s)),
      get = (\<lambda>k s. (Inl (Thrown ''ETIMEDOUT''), s)),
      hget = (\<lambda>k s. (Inl (Thrown ''ETIMEDOUT''), s)),
      set_c = (\<lambda>k v t s. (Inr (), s)),
      hset = (\<lambda>k f v t s. (Inr (), s)) \<rparr>"

text \<open>
  A configuration with a bypass header and a request that carries it; a store holding
  the number 0 under the id \<open>abc\<close>; an upstream that answers every request with the
  payload.
\<close>

definition bypass_cfg :: "unit config" where
  "bypass_cfg =
    \<lparr> cacheKeyModifier = None, cacheBypassHeader = Some ''x-no-cache'', globalTimeout = 0 \<rparr>"

definition bypass_req :: request where
  "bypass_req = annotated_req\<lparr>header := (\<lambda>name. if name = ''x-no-cache'' then Some ''1'' else None)\<rparr>"

definition zero_mem :: mem where
  "zero_mem = \<lparr> scalars = [(''abc'', JNum 0, 60)], hashes = [] \<rparr>"

definition ok_upstream :: "string option \<Rightarrow> string" where
  "ok_upstream sent = ok_reply"

definition noon :: string where
  "noon = ''2026-01-01T12:00:00.000Z''"

definition later :: string where
  "later = ''2026-01-01T12:00:05.000Z''"

section \<open>Basic facts\<close>

lemma truthy_prop_is_object:
  "get_prop b k = Inr v \<Longrightarrow> truthy v \<Longrightarrow> \<exists>kvs. b = JObj kvs"
  by (cases b) auto

lemma truthy_prop_truthy:
  "get_prop b k = Inr v \<Longrightarrow> truthy v \<Longrightarrow> truthy b"
  by (cases b) auto

lemma falsy_values:
  "\<not> truthy JUndefined" "\<not> truthy JNull" "\<not> truthy (JStr [])" "\<not> truthy (JNum 0)"
  "\<not> truthy (JBool False)" "\<not> truthy JNaN"
  by simp_all

lemma calls_append: "calls (xs @ ys) = calls xs @ calls ys"
  by (induction xs rule: calls.induct) auto

lemma scalar_keys_append: "scalar_keys (xs @ ys) = scalar_keys xs @ scalar_keys ys"
  by (induction xs rule: scalar_keys.induct) auto

lemma hash_keys_append: "hash_keys (xs @ ys) = hash_keys xs @ hash_keys ys"
  by (induction xs rule: hash_keys.induct) auto

lemma cacheable_data:
  "cacheable response = Inr True \<Longrightarrow> \<exists>d. get_prop response ''data'' = Inr d \<and> truthy d"
  by (auto simp: cacheable_def split: sum.splits if_splits)

lemma onProxyReq_body: "body req' = body req \<Longrightarrow> onProxyReq env req' = onProxyReq env req"
  by (simp add: onProxyReq_def)

subsection \<open>The store\<close>

lemma mem_hset: "hset mem_cache k f v t s = (Inr (), put_field k f v t s)"
  by (simp add: mem_cache_def)

lemma mem_hget: "hget mem_cache k s = (Inr (record_of s k), s)"
  by (simp add: mem_cache_def)

lemma fields_of_put_field:
  "fields_of (put_field k f v t s) k = AList.update f v (fields_of s k)"
  by (simp add: fields_of_def put_field_def update_conv')

lemma contract_hset:
  assumes "hash_contract c view"
  obtains s' where "hset c k f v t s = (Inr (), s')" and "view s' k = (view s k)(f \<mapsto> v)"
  using assms unfolding hash_contract_def by blast

lemma contract_hget:
  assumes "hash_contract c view" and "view s k f' = Some v'"
  shows "\<exists>r s'. hget c k s = (Inr r, s') \<and> view s' = view s \<and> truthy r
          \<and> (\<forall>f. get_prop r f = Inr (case view s k f of None \<Rightarrow> JUndefined | Some v \<Rightarrow> JStr v))"
proof -
  from assms(1) obtain r s' where h: "hget c k s = (Inr r, s')" "view s' = view s"
    "if view s k = Map.empty then \<not> truthy r \<or> (\<forall>f. get_prop r f = Inr JUndefined)
     else truthy r \<and> (\<forall>f. get_prop r f =
            Inr (case view s k f of None \<Rightarrow> JUndefined | Some v \<Rightarrow> JStr v))"
    unfolding hash_contract_def by blast
  have "view s k \<noteq> Map.empty" using assms(2) by auto
  with h show ?thesis by simp
qed

lemma mem_contract: "hash_contract mem_cache mem_fields"
  unfolding hash_contract_def
proof (intro conjI allI)
  fix k f v t and s :: mem
  show "\<exists>s'. hset mem_cache k f v t s = (Inr (), s') \<and> mem_fields s' k = (mem_fields s k)(f \<mapsto> v)"
    by (simp add: mem_hset mem_fields_def fields_of_put_field update_conv')
next
  fix k and s :: mem
  show "\<exists>r s'. hget mem_cache k s = (Inr r, s') \<and> mem_fields s' = mem_fields s \<and>
              (if mem_fields s k = Map.empty
               then \<not> truthy r \<or> (\<forall>f. get_prop r f = Inr JUndefined)
               else truthy r \<and>
                    (\<forall>f. get_prop r f =
                         Inr (case mem_fields s k f of None \<Rightarrow> JUndefined | Some v \<Rightarrow> JStr v)))"
    by (auto simp: mem_hget mem_fields_def record_of_def fields_of_def map_of_map
        split: option.splits)
qed

subsection \<open>The examples, run\<close>

lemmas demo_defs =
  demo_env_def demo_cfg_def demo_stringify_def demo_json_parse_def post_def plain_req_def
  annotated_req_def both_req_def plain_hash_def ok_reply_def error_reply_def empty_reply_def
  annotated_def plain_def payload_def empty_mem_def get_without_body_def bypass_cfg_def
  bypass_req_def zero_mem_def ok_upstream_def noon_def later_def pending_req_def
  empty_object_reply_def null_errors_reply_def

lemmas run_defs =
  handle_def hashStage_def proxyStage_def directiveMiddleware_def directiveTry_def
  hashMiddleware_def onProxyReq_def onProxyRes_def writeTry_def hashWrite_def directiveWrite_def
  decoded_def cacheable_def truthy_hash_def bypass_def mem_cache_def put_field_def
  record_of_def fields_of_def CACHE_HEADER_def CACHE_HASH_HEADER_def

lemma demo_ok_reply:
  "decoded demo_env ok_reply = Inr (JObj [(''data'', payload)])"
  "cacheable (JObj [(''data'', payload)]) = Inr True"
  "get_prop (JObj [(''data'', payload)]) ''data'' = Inr payload"
  by (simp_all add: decoded_def cacheable_def demo_defs)

lemma demo_run_annotated:
  "snd (snd (handle demo_env demo_cfg False mem_cache noon ok_upstream annotated_req empty_mem)) =
     [Call (CGet ''abc''),
      Call (CHSet plain_hash ''lastRequested'' noon 0), Call (CHGet plain_hash),
      Upstream (Some ''{query:{ x }}''),
      Call (CHSet plain_hash ''request'' ''{query:{ x }}'' 0),
      Call (CHSet plain_hash ''response'' ''{x:1}'' 0)]"
  by (simp add: run_defs demo_defs Let_def)

lemma demo_run_bypass:
  "snd (snd (handle demo_env bypass_cfg False mem_cache noon ok_upstream bypass_req empty_mem)) =
     [Call (CGet ''abc''), Upstream (Some ''{query:{ x }}''), Call (CSet ''abc'' payload 60)]"
  by (simp add: run_defs demo_defs Let_def)

section \<open>The phases, one by one\<close>

text \<open>
  A request that has no body and is a POST, or whose body has no query text, passes
  through both request-time phases unchanged and without any cache call.
\<close>

lemma no_query_passes_through:
  assumes "(\<not> truthy (body req) \<and> req_method req = ''POST'')
           \<or> (\<exists>q. get_prop (body req) ''query'' = Inr q \<and> \<not> truthy q)"
  shows "\<exists>effs. directiveMiddleware env cfg c req s = (Next req, s, effs) \<and> calls effs = []"
    and "\<exists>effs. hashMiddleware env cfg c now req s = (Next req, s, effs) \<and> calls effs = []"
  using assms by (auto simp: directiveMiddleware_def hashMiddleware_def)

text \<open>
  An exception thrown inside the \<open>try\<close> block of the directive phase is reported to
  \<open>errorOnGet\<close> and the request continues with its body as it was.
\<close>

lemma try_failure_continues:
  assumes "get_prop (body req) ''query'' = Inr query" and "truthy query"
    and "parse env query = Inr doc" and "hasDirectives env doc"
    and "directiveTry env cfg c req doc s = (Inl e, req', s', effs)"
  shows "directiveMiddleware env cfg c req s = (Next req', s', effs @ [ErrorOnGet e])
       \<and> body req' = body req"
proof -
  have "body req' = body req"
    using assms(5)
    by (auto simp: directiveTry_def Let_def split: sum.splits prod.splits if_splits)
  then show ?thesis
    using assms truthy_prop_truthy [OF assms(1,2)] by (simp add: directiveMiddleware_def)
qed

lemma directiveTry_miss:
  assumes "removeCacheDirective env doc = Inr nextQuery"
    and "get_prop (body req) ''variables'' = Inr variables"
    and "calculateArguments env doc variables (cacheKeyModifier cfg) req = Inr (i, timeout)"
    and "get c i s = (Inr possibleData, s1)"
    and "\<not> truthy possibleData"
    and "print env nextQuery = Inr text"
  shows "directiveTry env cfg c req doc s =
          (Inr None, req\<lparr>req_hasCache := Some (i, timeout),
                         body := spread_query (body req) (JStr text)\<rparr>, s1, [Call (CGet i)])"
  using assms by (simp add: directiveTry_def)

lemma hashMiddleware_first_call:
  assumes "get_prop (body req) ''query'' = Inr query" and "truthy query"
    and "\<not> bypass cfg req"
  shows "\<exists>out s' rest. hashMiddleware env cfg c now req s =
           (out, s', Call (CHSet (md5_hex env (stringify env (body req))) ''lastRequested'' now
                         (globalTimeout cfg)) # rest)"
  using assms truthy_prop_truthy [OF assms(1,2)]
  by (auto simp: hashMiddleware_def Let_def split: sum.splits prod.splits)

text \<open>
  Which keys each phase uses, and what it leaves in the request's annotations.
\<close>

lemma directiveTry_keys:
  assumes "directiveTry env cfg c req doc s = (r, req', s', effs)"
  shows "hash_keys effs = [] \<and> req_bodyHash req' = req_bodyHash req
       \<and> (\<forall>out. r = Inr (Some out) \<longrightarrow> (\<exists>hs b. out = Responded hs b))
       \<and> (scalar_keys effs = [] \<and> req_hasCache req' = req_hasCache req
          \<or> (\<exists>i. scalar_keys effs = [i]
                \<and> (req_hasCache req' = req_hasCache req \<or> (\<exists>t. req_hasCache req' = Some (i, t)))))"
  using assms
  by (auto simp: directiveTry_def Let_def split: sum.splits prod.splits if_splits)

lemma directiveMiddleware_keys:
  assumes "directiveMiddleware env cfg c req s = (out, s', effs)"
  shows "hash_keys effs = []
       \<and> (\<forall>req'. out = Next req' \<longrightarrow> req_bodyHash req' = req_bodyHash req
            \<and> (scalar_keys effs = [] \<and> req_hasCache req' = req_hasCache req
               \<or> (\<exists>i. scalar_keys effs = [i]
                     \<and> (req_hasCache req' = req_hasCache req
                         \<or> (\<exists>t. req_hasCache req' = Some (i, t))))))
       \<and> (scalar_keys effs = [] \<or> (\<exists>i. scalar_keys effs = [i]))"
proof (cases "\<exists>doc q. \<not> (\<not> truthy (body req) \<and> req_method req = ''POST'')
          \<and> get_prop (body req) ''query'' = Inr q \<and> truthy q \<and> parse env q = Inr doc
          \<and> hasDirectives env doc")
  case True
  then obtain doc q where h: "\<not> (\<not> truthy (body req) \<and> req_method req = ''POST'')"
      "get_prop (body req) ''query'' = Inr q" "truthy q" "parse env q = Inr doc"
      "hasDirectives env doc"
    by blast
  obtain r req1 s1 effs1 where t: "directiveTry env cfg c req doc s = (r, req1, s1, effs1)"
    by (cases "directiveTry env cfg c req doc s") auto
  from directiveTry_keys [OF t] assms h t show ?thesis
    by (auto simp: directiveMiddleware_def scalar_keys_append hash_keys_append
        split: sum.splits option.splits)
next
  case False
  with assms show ?thesis
    by (auto simp: directiveMiddleware_def split: sum.splits if_splits)
qed

lemma hashMiddleware_keys:
  assumes "hashMiddleware env cfg c now req s = (out, s', effs)"
  shows "scalar_keys effs = []
       \<and> (\<forall>req'. out = Next req' \<longrightarrow> req_hasCache req' = req_hasCache req
            \<and> (hash_keys effs = [] \<and> req_bodyHash req' = req_bodyHash req
               \<or> (\<exists>h. set (hash_keys effs) \<subseteq> {h} \<and> req_bodyHash req' = Some h)))
       \<and> (\<exists>h. set (hash_keys effs) \<subseteq> {h})"
  using assms
  by (auto simp: hashMiddleware_def Let_def split: sum.splits prod.splits if_splits)

lemma onProxyRes_keys:
  assumes "onProxyRes env cfg hook c req proxyRes s = (s', effs)"
  shows "set (scalar_keys effs) \<subseteq> (case req_hasCache req of None \<Rightarrow> {} | Some (i, t) \<Rightarrow> {i})
       \<and> set (hash_keys effs) \<subseteq> (case req_bodyHash req of None \<Rightarrow> {} | Some h \<Rightarrow> {h})
       \<and> (scalar_keys effs = [] \<or> hash_keys effs = [])"
  using assms
  by (auto simp: onProxyRes_def writeTry_def hashWrite_def directiveWrite_def truthy_hash_def
      Let_def scalar_keys_append hash_keys_append
      split: sum.splits prod.splits option.splits if_splits)

lemma lifecycle_keys:
  assumes "req_hasCache req = None" and "req_bodyHash req = None"
    and "handle env cfg hook c now upstream req s = (out, s', effs)"
  shows "(\<exists>k. set (scalar_keys effs) \<subseteq> {k}) \<and> (\<exists>h. set (hash_keys effs) \<subseteq> {h})"
proof -
  obtain o1 s1 e1 where d: "directiveMiddleware env cfg c req s = (o1, s1, e1)"
    by (cases "directiveMiddleware env cfg c req s") auto
  note dk = directiveMiddleware_keys [OF d]
  show ?thesis
  proof (cases o1)
    case (Next req1)
    obtain o2 s2 e2 where h: "hashMiddleware env cfg c now req1 s1 = (o2, s2, e2)"
      by (cases "hashMiddleware env cfg c now req1 s1") auto
    note hk = hashMiddleware_keys [OF h]
    show ?thesis
    proof (cases o2)
      case (Next req2)
      obtain s3 e3 where p:
        "onProxyRes env cfg hook c req2 (upstream (onProxyReq env req2)) s2 = (s3, e3)"
        by (cases "onProxyRes env cfg hook c req2 (upstream (onProxyReq env req2)) s2") auto
      note pk = onProxyRes_keys [OF p]
      have effs: "effs = e1 @ e2 @ Upstream (onProxyReq env req2) # e3"
        using assms(3) d h p \<open>o1 = Next req1\<close> \<open>o2 = Next req2\<close>
        by (simp add: handle_def hashStage_def proxyStage_def Let_def)
      from dk hk pk assms(1,2) \<open>o1 = Next req1\<close> \<open>o2 = Next req2\<close> show ?thesis
        unfolding effs scalar_keys_append hash_keys_append
        by (auto split: option.splits)
    next
      case (Responded hs b)
      then have "effs = e1 @ e2"
        using assms(3) d h \<open>o1 = Next req1\<close> by (simp add: handle_def hashStage_def)
      with dk hk show ?thesis
        by (auto simp: scalar_keys_append hash_keys_append)
    next
      case (Rejected e)
      then have "effs = e1 @ e2"
        using assms(3) d h \<open>o1 = Next req1\<close> by (simp add: handle_def hashStage_def)
      with dk hk show ?thesis
        by (auto simp: scalar_keys_append hash_keys_append)
    qed
  next
    case (Responded hs b)
    then have "effs = e1" using assms(3) d by (simp add: handle_def)
    with dk show ?thesis by auto
  next
    case (Rejected e)
    then have "effs = e1" using assms(3) d by (simp add: handle_def)
    with dk show ?thesis by auto
  qed
qed

section \<open>The claims\<close>

text \<open>
  C1. In the directive phase the query is parsed before the \<open>try\<close> block is entered
  (line 44, the block starts at line 49). When the request has query text that does not
  parse, the handler's promise is rejected with the parse error: \<open>errorOnGet\<close> is not
  called, no cache call is made and \<open>next()\<close> is never reached, so the failure is not
  caught and the request does not continue.
\<close>

theorem parse_error_not_caught:
  assumes "get_prop (body req) ''query'' = Inr query" and "truthy query"
    and "parse env query = Inl e"
  shows "directiveMiddleware env cfg c req s = (Rejected e, s, [])"
  using assms truthy_prop_truthy [OF assms(1,2)]
  by (simp add: directiveMiddleware_def)

theorem parse_error_not_caught_witness:
  "directiveMiddleware demo_env demo_cfg mem_cache (post (JObj [(''query'', JStr ''{'')])) empty_mem
     = (Rejected (Thrown ''Syntax Error''), empty_mem, [])"
  using parse_error_not_caught [of "post (JObj [(''query'', JStr ''{'')])" "JStr ''{''" demo_env
      "Thrown ''Syntax Error''" demo_cfg mem_cache empty_mem]
  by (simp add: post_def demo_env_def)

text \<open>
  C2. A request that is not a POST and has no body (\<open>req.body\<close> undefined or null) is
  not passed through by either request-time phase: the guard of lines 35 and 78 only
  covers POST, so the handler goes on to read \<open>req.body.query\<close>, and its promise is
  rejected with a \<open>TypeError\<close> before \<open>next()\<close> is reached. This holds whatever the
  collaborators, the configuration and the store are.
\<close>

theorem bodiless_non_post_rejected:
  assumes "body req = JUndefined \<or> body req = JNull" and "req_method req \<noteq> ''POST''"
  shows "directiveMiddleware env cfg c req s = (Rejected TypeError, s, [])
       \<and> hashMiddleware env cfg c now req s = (Rejected TypeError, s, [])"
  using assms by (auto simp: directiveMiddleware_def hashMiddleware_def)

theorem bodiless_non_post_rejected_witness:
  "directiveMiddleware demo_env demo_cfg mem_cache get_without_body empty_mem
     = (Rejected TypeError, empty_mem, [])
   \<and> hashMiddleware demo_env demo_cfg mem_cache noon get_without_body empty_mem
     = (Rejected TypeError, empty_mem, [])"
proof -
  have "body get_without_body = JUndefined \<or> body get_without_body = JNull"
    and "req_method get_without_body \<noteq> ''POST''"
    by (simp_all add: get_without_body_def)
  from bodiless_non_post_rejected [OF this, of demo_env demo_cfg mem_cache empty_mem noon]
  show ?thesis .
qed

text \<open>
  C3. In the hash phase a failure of the store is not isolated. For a request with query
  text and no bypass, with \<open>h\<close> the digest of its serialised body: when the \<open>hset\<close> of
  the \<open>lastRequested\<close> field rejects, the handler's promise is rejected with that error
  right after the call; when the \<open>hset\<close> succeeds and the \<open>hget\<close> rejects, it is
  rejected after the two calls. In both cases nothing is reported to the error policy
  and \<open>next()\<close> is not reached.
\<close>

theorem hash_store_failure_not_caught:
  assumes "get_prop (body req) ''query'' = Inr query" and "truthy query"
    and "\<not> bypass cfg req"
    and "h = md5_hex env (stringify env (body req))"
    and "w = Call (CHSet h ''lastRequested'' now (globalTimeout cfg))"
  shows "(hset c h ''lastRequested'' now (globalTimeout cfg) s = (Inl e, s1)
            \<longrightarrow> hashMiddleware env cfg c now req s = (Rejected e, s1, [w]))
       \<and> (hset c h ''lastRequested'' now (globalTimeout cfg) s = (Inr u, s1)
            \<and> hget c h s1 = (Inl e, s2)
            \<longrightarrow> hashMiddleware env cfg c now req s = (Rejected e, s2, [w, Call (CHGet h)]))"
  using assms truthy_prop_truthy [OF assms(1,2)]
  by (simp add: hashMiddleware_def Let_def)

theorem hash_store_failure_not_caught_witness:
  "hashMiddleware demo_env demo_cfg broken_cache ''2026-01-01T00:00:00.000Z'' plain_req ()
     = (Rejected (Thrown ''ECONNREFUSED''), (),
        [Call (CHSet plain_hash ''lastRequested'' ''2026-01-01T00:00:00.000Z'' 0)])
   \<and> hashMiddleware demo_env demo_cfg unreadable_cache ''2026-01-01T00:00:00.000Z'' plain_req ()
     = (Rejected (Thrown ''ETIMEDOUT''), (),
        [Call (CHSet plain_hash ''lastRequested'' ''2026-01-01T00:00:00.000Z'' 0),
         Call (CHGet plain_hash)])"
proof -
  have q: "get_prop (body plain_req) ''query'' = Inr (JStr plain)" "truthy (JStr plain)"
    by (simp_all add: demo_defs)
  have nb: "\<not> bypass demo_cfg plain_req"
    by (simp add: bypass_def demo_defs)
  have h: "plain_hash = md5_hex demo_env (stringify demo_env (body plain_req))"
    by (simp add: demo_defs)
  note t = hash_store_failure_not_caught [OF q nb h refl,
      where now = "''2026-01-01T00:00:00.000Z''" and s = "()"]
  from t [where c = broken_cache and e = "Thrown ''ECONNREFUSED''" and ?s1.0 = "()"]
    t [where c = unreadable_cache and e = "Thrown ''ETIMEDOUT''" and ?s1.0 = "()"
        and ?s2.0 = "()" and u = "()"]
  show ?thesis
    by (simp add: broken_cache_def unreadable_cache_def demo_cfg_def)
qed

text \<open>
  C4. In the response interceptor, when the upstream's reply decodes to a cacheable
  response (\<open>errors\<close> falsy, \<open>data\<close> truthy) with payload \<open>data\<close>, the interceptor's
  whole result, the store it leaves and what it did, is that of one strategy's write.
  If the request carries a body hash \<open>h\<close>, the store's \<open>hset\<close> writes the \<open>request\<close>
  field and then, on the state that write leaves and unless it rejected, the \<open>response\<close>
  field, both under \<open>h\<close> with the global timeout; the store is left as the last of these
  writes leaves it and no scalar \<open>set\<close> is made. If the request carries no body hash but
  the pending state \<open>(i, t)\<close>, the store's \<open>set\<close> writes the payload under \<open>i\<close> with
  timeout \<open>t\<close>, the store is left as that write leaves it and no \<open>hset\<close> is made. A
  rejected write is reported to \<open>errorOnSet\<close>. So exactly one strategy's write path runs.
\<close>

theorem write_strategy_selection:
  assumes "decoded env proxyRes = Inr response" and "cacheable response = Inr True"
    and "get_prop response ''data'' = Inr data"
    and "g = globalTimeout cfg"
    and "w1 = Call (CHSet h ''request'' (stringify env (body req)) g)"
    and "w2 = Call (CHSet h ''response'' (stringify env data) g)"
    and "after = (if hook then [UserOnProxyRes] else [])"
  shows "(req_bodyHash req = Some h \<and> h \<noteq> [] \<longrightarrow>
           onProxyRes env cfg hook c req proxyRes s =
             (case hset c h ''request'' (stringify env (body req)) g s of
                (Inl e, s1) \<Rightarrow> (s1, [w1, ErrorOnSet e] @ after)
              | (Inr u, s1) \<Rightarrow>
                  (case hset c h ''response'' (stringify env data) g s1 of
                     (Inl e, s2) \<Rightarrow> (s2, [w1, w2, ErrorOnSet e] @ after)
                   | (Inr u', s2) \<Rightarrow> (s2, [w1, w2] @ after))))
       \<and> (\<not> truthy_hash (req_bodyHash req) \<and> req_hasCache req = Some (i, t) \<longrightarrow>
           onProxyRes env cfg hook c req proxyRes s =
             (case set_c c i data t s of
                (Inl e, s1) \<Rightarrow> (s1, [Call (CSet i data t), ErrorOnSet e] @ after)
              | (Inr u, s1) \<Rightarrow> (s1, [Call (CSet i data t)] @ after)))"
  using assms
  by (auto simp: onProxyRes_def writeTry_def hashWrite_def directiveWrite_def truthy_hash_def
      Let_def split: sum.splits prod.splits option.splits)

theorem write_strategy_selection_witness:
  "onProxyRes demo_env demo_cfg False mem_cache both_req ok_reply empty_mem =
     (\<lparr> scalars = [],
        hashes = [(plain_hash,
                   [(''request'', ''{query:{ x }}''), (''response'', ''{x:1}'')], 0)] \<rparr>,
      [Call (CHSet plain_hash ''request'' ''{query:{ x }}'' 0),
       Call (CHSet plain_hash ''response'' ''{x:1}'' 0)])
   \<and> onProxyRes demo_env demo_cfg False mem_cache pending_req ok_reply empty_mem =
     (\<lparr> scalars = [(''abc'', payload, 60)], hashes = [] \<rparr>,
      [Call (CSet ''abc'' payload 60)])
   \<and> onProxyRes demo_env demo_cfg False broken_cache pending_req ok_reply () =
     ((), [Call (CSet ''abc'' payload 60), ErrorOnSet (Thrown ''ECONNREFUSED'')])"
proof -
  note t = write_strategy_selection [OF demo_ok_reply refl refl refl refl, where hook = False]
  from t [where req = both_req and h = plain_hash and c = mem_cache and s = empty_mem]
    t [where req = pending_req and i = "''abc''" and t = 60 and c = mem_cache
        and s = empty_mem]
    t [where req = pending_req and i = "''abc''" and t = 60 and c = broken_cache
        and s = "()"]
  show ?thesis
    by (simp add: demo_defs truthy_hash_def mem_cache_def broken_cache_def put_field_def
        fields_of_def)
qed

text \<open>
  C5, as amended. When a request carries both the directive's pending state and a body
  hash and the upstream's reply is cacheable, the hash takes precedence: the interceptor
  writes the \<open>request\<close> field under the hash and makes no scalar \<open>set\<close> at all. The
  pending state is the fallback, used only when the hash is absent.
\<close>

theorem hash_precedes_directive:
  assumes "decoded env proxyRes = Inr response" and "cacheable response = Inr True"
    and "req_hasCache req = Some (i, t)" and "req_bodyHash req = Some h" and "h \<noteq> []"
  shows "(\<forall>k v t'. CSet k v t' \<notin> set (calls (snd (onProxyRes env cfg hook c req proxyRes s))))
       \<and> CHSet h ''request'' (stringify env (body req)) (globalTimeout cfg)
            \<in> set (calls (snd (onProxyRes env cfg hook c req proxyRes s)))"
  using assms cacheable_data [OF assms(2)]
  by (auto simp: onProxyRes_def writeTry_def hashWrite_def directiveWrite_def truthy_hash_def
      Let_def calls_append split: sum.splits prod.splits option.splits)

theorem hash_precedes_directive_witness:
  "(\<forall>k v t'. CSet k v t' \<notin>
       set (calls (snd (onProxyRes demo_env demo_cfg False mem_cache both_req ok_reply empty_mem))))
   \<and> CHSet plain_hash ''request'' ''{query:{ x }}'' 0 \<in>
       set (calls (snd (onProxyRes demo_env demo_cfg False mem_cache both_req ok_reply empty_mem)))"
  using hash_precedes_directive [OF demo_ok_reply(1,2), where req = both_req and i = "''abc''"
      and t = 60 and h = plain_hash and cfg = demo_cfg and hook = False and c = mem_cache
      and s = empty_mem]
  by (simp add: demo_defs)

text \<open>
  The claim as stated, that the directive's pending state takes precedence, fails on
  the request \<open>both_req\<close>: the two hash fields are written and the scalar store stays
  empty.
\<close>

theorem directive_precedence_counterexample:
  "calls (snd (onProxyRes demo_env demo_cfg False mem_cache both_req ok_reply empty_mem)) =
     [CHSet plain_hash ''request'' ''{query:{ x }}'' 0,
      CHSet plain_hash ''response'' ''{x:1}'' 0]
   \<and> scalars (fst (onProxyRes demo_env demo_cfg False mem_cache both_req ok_reply empty_mem)) = []"
  by (simp add: onProxyRes_def writeTry_def hashWrite_def truthy_hash_def decoded_def
      cacheable_def mem_cache_def put_field_def demo_defs)

text \<open>
  C6, as amended. The interceptor tests the decoded response the way JavaScript tests
  truth. When the response's \<open>errors\<close> value is truthy (any array or object, so every
  \<open>{errors: [...]}\<close> envelope) or its \<open>data\<close> value is falsy (absent, null, false, 0,
  the empty string), the response interceptor makes no cache call of either strategy and
  leaves the store as it was, whatever annotations the request carries.
\<close>

theorem uncacheable_never_written:
  assumes "decoded env proxyRes = Inr response"
    and "(\<exists>errors. get_prop response ''errors'' = Inr errors \<and> truthy errors)
         \<or> (\<exists>data. get_prop response ''data'' = Inr data \<and> \<not> truthy data)"
  shows "calls (snd (onProxyRes env cfg hook c req proxyRes s)) = []
       \<and> fst (onProxyRes env cfg hook c req proxyRes s) = s"
proof -
  have "cacheable response = Inr False"
    using assms(2) by (cases response) (auto simp: cacheable_def split: sum.splits)
  then show ?thesis
    using assms(1) by (simp add: onProxyRes_def writeTry_def calls_append)
qed

theorem uncacheable_never_written_witness:
  "calls (snd (onProxyRes demo_env demo_cfg False mem_cache both_req error_reply empty_mem)) = []
   \<and> fst (onProxyRes demo_env demo_cfg False mem_cache both_req error_reply empty_mem) = empty_mem
   \<and> calls (snd (onProxyRes demo_env demo_cfg False mem_cache both_req empty_reply empty_mem)) = []
   \<and> fst (onProxyRes demo_env demo_cfg False mem_cache both_req empty_reply empty_mem) = empty_mem"
proof -
  have e: "decoded demo_env error_reply =
             Inr (JObj [(''errors'', JArr [JStr ''oops'']), (''data'', payload)])"
    and n: "decoded demo_env empty_reply = Inr (JObj [(''data'', JNull)])"
    by (simp_all add: decoded_def demo_defs)
  from uncacheable_never_written [OF e, where cfg = demo_cfg and hook = False and c = mem_cache
      and req = both_req and s = empty_mem]
    uncacheable_never_written [OF n, where cfg = demo_cfg and hook = False and c = mem_cache
      and req = both_req and s = empty_mem]
  show ?thesis by simp
qed

text \<open>
  The claim as stated, that a response with an \<open>errors\<close> field or without a non-empty
  payload is never written, fails on two replies to \<open>pending_req\<close>: the empty object is
  a truthy payload and is stored under \<open>abc\<close>, and a reply whose \<open>errors\<close> field is null
  has its payload stored.
\<close>

theorem empty_payload_written_counterexample:
  "decoded demo_env empty_object_reply = Inr (JObj [(''data'', JObj [])])
   \<and> onProxyRes demo_env demo_cfg False mem_cache pending_req empty_object_reply empty_mem =
     (\<lparr> scalars = [(''abc'', JObj [], 60)], hashes = [] \<rparr>,
      [Call (CSet ''abc'' (JObj []) 60)])
   \<and> decoded demo_env null_errors_reply =
       Inr (JObj [(''errors'', JNull), (''data'', payload)])
   \<and> onProxyRes demo_env demo_cfg False mem_cache pending_req null_errors_reply empty_mem =
     (\<lparr> scalars = [(''abc'', payload, 60)], hashes = [] \<rparr>,
      [Call (CSet ''abc'' payload 60)])"
  by (simp add: onProxyRes_def writeTry_def directiveWrite_def truthy_hash_def decoded_def
      cacheable_def mem_cache_def demo_defs)

text \<open>
  C7. In the lifecycle of a request that arrives without annotations, all calls on the
  scalar store (the \<open>get\<close> of the directive phase and the \<open>set\<close> of the response
  interceptor) use one and the same key, and all calls on the hash store (the \<open>hset\<close>
  and \<open>hget\<close> of the hash phase and the \<open>hset\<close>s of the response interceptor) use one
  and the same key: lookup and write never use different keys.
\<close>

theorem key_consistency:
  assumes "req_hasCache req = None" and "req_bodyHash req = None"
    and "effs = snd (snd (handle env cfg hook c now upstream req s))"
  shows "(\<exists>k. set (scalar_keys effs) \<subseteq> {k}) \<and> (\<exists>h. set (hash_keys effs) \<subseteq> {h})"
proof -
  obtain out s' where "handle env cfg hook c now upstream req s = (out, s', effs)"
    using assms(3) by (cases "handle env cfg hook c now upstream req s") auto
  with assms(1,2) show ?thesis by (rule lifecycle_keys)
qed

theorem key_consistency_witness:
  "scalar_keys (snd (snd (handle demo_env bypass_cfg False mem_cache noon ok_upstream
       bypass_req empty_mem))) = [''abc'', ''abc'']
   \<and> hash_keys (snd (snd (handle demo_env demo_cfg False mem_cache noon ok_upstream
       annotated_req empty_mem))) = [plain_hash, plain_hash, plain_hash, plain_hash]
   \<and> (\<exists>k. set (scalar_keys (snd (snd (handle demo_env bypass_cfg False mem_cache noon
       ok_upstream bypass_req empty_mem)))) \<subseteq> {k})
   \<and> (\<exists>h. set (hash_keys (snd (snd (handle demo_env demo_cfg False mem_cache noon
       ok_upstream annotated_req empty_mem)))) \<subseteq> {h})"
proof -
  have a: "req_hasCache bypass_req = None" "req_bodyHash bypass_req = None"
    and b: "req_hasCache annotated_req = None" "req_bodyHash annotated_req = None"
    by (simp_all add: demo_defs)
  from key_consistency [OF a refl, of demo_env bypass_cfg False mem_cache noon ok_upstream
      empty_mem]
    key_consistency [OF b refl, of demo_env demo_cfg False mem_cache noon ok_upstream
      empty_mem]
  show ?thesis
    by (simp add: demo_run_annotated demo_run_bypass)
qed

text \<open>
  C8, as amended. The hash phase digests the serialised body as it stands when the phase
  runs: entered directly, its first call writes \<open>lastRequested\<close> under the digest of the
  request's body. In the lifecycle of a request whose annotated query misses in the
  directive phase (the stored value is falsy) and prints to a non-empty text once the
  directive is removed, that first call is made under the digest of the body whose query
  is the stripped text: the directive's removal does change the hashed bytes.
\<close>

theorem hash_is_of_stripped_body:
  assumes "get_prop (body req) ''query'' = Inr query" and "truthy query"
    and "parse env query = Inr doc" and "hasDirectives env doc"
    and "removeCacheDirective env doc = Inr nextQuery"
    and "get_prop (body req) ''variables'' = Inr variables"
    and "calculateArguments env doc variables (cacheKeyModifier cfg) req = Inr (i, timeout)"
    and "get c i s = (Inr possibleData, s1)"
    and "\<not> truthy possibleData"
    and "print env nextQuery = Inr text" and "text \<noteq> []"
    and "\<not> bypass cfg req"
  shows "(\<exists>out s' rest. hashMiddleware env cfg c now req s =
           (out, s',
            Call (CHSet (md5_hex env (stringify env (body req)))
                    ''lastRequested'' now (globalTimeout cfg)) # rest))
       \<and> (\<exists>out s' rest. handle env cfg hook c now upstream req s =
           (out, s',
            Call (CGet i) #
            Call (CHSet (md5_hex env (stringify env (spread_query (body req) (JStr text))))
                    ''lastRequested'' now (globalTimeout cfg)) # rest))"
proof -
  let ?req1 = "req\<lparr>req_hasCache := Some (i, timeout),
                    body := spread_query (body req) (JStr text)\<rparr>"
  obtain kvs where b: "body req = JObj kvs"
    using truthy_prop_is_object [OF assms(1,2)] by blast
  have d: "directiveMiddleware env cfg c req s = (Next ?req1, s1, [Call (CGet i)])"
    using assms(1-4) b directiveTry_miss [OF assms(5-10)]
    by (simp add: directiveMiddleware_def)
  have q1: "get_prop (body ?req1) ''query'' = Inr (JStr text)"
    by (simp add: b update_conv')
  have nb: "\<not> bypass cfg ?req1"
    using assms(12) by (simp add: bypass_def split: option.splits)
  from hashMiddleware_first_call [OF q1 _ nb, of env c now s1] assms(11)
  obtain o2 s2 rest where h: "hashMiddleware env cfg c now ?req1 s1 =
      (o2, s2, Call (CHSet (md5_hex env (stringify env (spread_query (body req) (JStr text))))
                       ''lastRequested'' now (globalTimeout cfg)) # rest)"
    by auto
  have "\<exists>out s' rest. handle env cfg hook c now upstream req s =
           (out, s',
            Call (CGet i) #
            Call (CHSet (md5_hex env (stringify env (spread_query (body req) (JStr text))))
                    ''lastRequested'' now (globalTimeout cfg)) # rest)"
    using d h
    by (cases o2) (auto simp: handle_def hashStage_def proxyStage_def split: prod.splits)
  with hashMiddleware_first_call [OF assms(1,2,12), of env c now s] show ?thesis
    by (rule conjI)
qed

theorem hash_is_of_stripped_body_witness:
  "(\<exists>out s' rest.
     hashMiddleware demo_env demo_cfg mem_cache noon annotated_req empty_mem =
       (out, s',
        Call (CHSet ''md5 {query:{ x @cache(id: abc, timeout: 60) }}'' ''lastRequested'' noon 0)
        # rest))
   \<and> (\<exists>out s' rest.
     handle demo_env demo_cfg False mem_cache noon ok_upstream annotated_req empty_mem =
       (out, s', Call (CGet ''abc'') # Call (CHSet plain_hash ''lastRequested'' noon 0) # rest))"
proof -
  have "get_prop (body annotated_req) ''query'' = Inr (JStr annotated)"
    and "truthy (JStr annotated)"
    and "parse demo_env (JStr annotated) = Inr annotated"
    and "hasDirectives demo_env annotated"
    and "removeCacheDirective demo_env annotated = Inr plain"
    and "get_prop (body annotated_req) ''variables'' = Inr JUndefined"
    and "calculateArguments demo_env annotated JUndefined (cacheKeyModifier demo_cfg)
           annotated_req = Inr (''abc'', 60)"
    and "get mem_cache ''abc'' empty_mem = (Inr JUndefined, empty_mem)"
    and "\<not> truthy JUndefined"
    and "print demo_env plain = Inr plain" and "plain \<noteq> []"
    and "\<not> bypass demo_cfg annotated_req"
    by (simp_all add: demo_defs mem_cache_def bypass_def)
  from hash_is_of_stripped_body [OF this, of noon False ok_upstream]
  show ?thesis
    by (simp add: demo_defs)
qed

text \<open>
  The claim as stated, that the digest is of the body before the directive is stripped,
  fails on the request \<open>annotated_req\<close>: every hash-store call uses the digest of the
  stripped body, which differs from the digest of the body as it was parsed.
\<close>

theorem stripped_hash_counterexample:
  "hash_keys (snd (snd (handle demo_env demo_cfg False mem_cache noon ok_upstream
       annotated_req empty_mem))) = [plain_hash, plain_hash, plain_hash, plain_hash]
   \<and> md5_hex demo_env (stringify demo_env (body annotated_req)) =
       ''md5 {query:{ x @cache(id: abc, timeout: 60) }}''
   \<and> plain_hash \<noteq> md5_hex demo_env (stringify demo_env (body annotated_req))"
  by (simp add: demo_run_annotated) (simp add: demo_defs)

text \<open>
  C9. Take a request with query text and no bypass that enters the hash phase twice,
  against a store that meets the contract for hash records, with \<open>h\<close> the digest of its
  serialised body; let the store hold no \<open>response\<close> field under \<open>h\<close>, let the upstream's
  reply be cacheable with payload \<open>data\<close>, and let \<open>JSON.parse\<close> invert
  \<open>JSON.stringify\<close> on that payload. Then
  the first call writes \<open>lastRequested\<close>, misses, invokes the upstream, writes the
  \<open>request\<close> and \<open>response\<close> fields and relays the reply; the second call writes
  \<open>lastRequested\<close> again, does not invoke the upstream and is answered from the cache
  with the payload stored by the first.
\<close>

theorem hash_idempotence:
  assumes "hash_contract c view"
    and "get_prop (body req) ''query'' = Inr query" and "truthy query"
    and "\<not> bypass cfg req"
    and "h = md5_hex env (stringify env (body req))" and "h \<noteq> []"
    and "view s h ''response'' = None"
    and "decoded env (upstream (onProxyReq env req)) = Inr response"
    and "cacheable response = Inr True"
    and "get_prop response ''data'' = Inr data"
    and "stringify env data \<noteq> []"
    and "json_parse env (JStr (stringify env data)) = Inr data"
    and "g = globalTimeout cfg"
  shows "\<exists>s1 s2.
      hashStage env cfg hook c now1 upstream req s =
        (Relayed (upstream (onProxyReq env req)), s1,
         [Call (CHSet h ''lastRequested'' now1 g), Call (CHGet h),
          Upstream (onProxyReq env req),
          Call (CHSet h ''request'' (stringify env (body req)) g),
          Call (CHSet h ''response'' (stringify env data) g)]
         @ (if hook then [UserOnProxyRes] else []))
    \<and> hashStage env cfg hook c now2 upstream req s1 =
        (FromCache [(CACHE_HEADER, ''true''), (CACHE_HASH_HEADER, h)] (JObj [(''data'', data)]),
         s2, [Call (CHSet h ''lastRequested'' now2 g), Call (CHGet h)])
    \<and> view s2 h ''lastRequested'' = Some now2
    \<and> view s2 h ''response'' = Some (stringify env data)"
proof -
  let ?req1 = "req\<lparr>req_bodyHash := Some h\<rparr>"
  note ct = assms(1)
  have hh: "md5_hex env (stringify env (body req)) = h" and gg: "globalTimeout cfg = g"
    using assms(5,13) by simp_all
  have tb: "truthy (body req)"
    using truthy_prop_truthy [OF assms(2,3)] .
  obtain sa where sa: "hset c h ''lastRequested'' now1 g s = (Inr (), sa)"
      "view sa h = (view s h)(''lastRequested'' \<mapsto> now1)"
    by (rule contract_hset [OF ct])
  have fa: "view sa h ''lastRequested'' = Some now1" using sa(2) by simp
  from ct fa
  have "\<exists>r s'. hget c h sa = (Inr r, s') \<and> view s' = view sa \<and> truthy r
          \<and> (\<forall>f. get_prop r f = Inr (case view sa h f of None \<Rightarrow> JUndefined | Some v \<Rightarrow> JStr v))"
    by (rule contract_hget)
  then obtain ra sa' where ra: "hget c h sa = (Inr ra, sa')" "view sa' = view sa" "truthy ra"
      "\<forall>f. get_prop ra f = Inr (case view sa h f of None \<Rightarrow> JUndefined | Some v \<Rightarrow> JStr v)"
    by blast
  have rar: "get_prop ra ''response'' = Inr JUndefined"
    using ra(4) sa(2) assms(7) by simp
  have m1: "hashMiddleware env cfg c now1 req s =
      (Next ?req1, sa', [Call (CHSet h ''lastRequested'' now1 g), Call (CHGet h)])"
    using assms(2-4) hh gg tb sa(1) ra(1,3) rar
    by (simp add: hashMiddleware_def Let_def)
  obtain sb where sb: "hset c h ''request'' (stringify env (body req)) g sa' = (Inr (), sb)"
      "view sb h = (view sa' h)(''request'' \<mapsto> stringify env (body req))"
    by (rule contract_hset [OF ct])
  obtain sc where sc: "hset c h ''response'' (stringify env data) g sb = (Inr (), sc)"
      "view sc h = (view sb h)(''response'' \<mapsto> stringify env data)"
    by (rule contract_hset [OF ct])
  have w1: "writeTry env cfg c ?req1 (upstream (onProxyReq env req)) sa' =
      (Inr (), sc, [Call (CHSet h ''request'' (stringify env (body req)) g),
                    Call (CHSet h ''response'' (stringify env data) g)])"
    using assms(6,8,9,10) gg sb(1) sc(1)
    by (simp add: writeTry_def hashWrite_def Let_def)
  have p1: "proxyStage env cfg hook c upstream ?req1 sa' =
      (Relayed (upstream (onProxyReq env req)), sc,
       [Upstream (onProxyReq env req),
        Call (CHSet h ''request'' (stringify env (body req)) g),
        Call (CHSet h ''response'' (stringify env data) g)]
       @ (if hook then [UserOnProxyRes] else []))"
    using w1 assms(6)
    by (simp add: proxyStage_def onProxyRes_def Let_def truthy_hash_def
        onProxyReq_body [of ?req1 req])
  have run1: "hashStage env cfg hook c now1 upstream req s =
        (Relayed (upstream (onProxyReq env req)), sc,
         [Call (CHSet h ''lastRequested'' now1 g), Call (CHGet h),
          Upstream (onProxyReq env req),
          Call (CHSet h ''request'' (stringify env (body req)) g),
          Call (CHSet h ''response'' (stringify env data) g)]
         @ (if hook then [UserOnProxyRes] else []))"
    using m1 p1 by (simp add: hashStage_def)
  obtain sd where sd: "hset c h ''lastRequested'' now2 g sc = (Inr (), sd)"
      "view sd h = (view sc h)(''lastRequested'' \<mapsto> now2)"
    by (rule contract_hset [OF ct])
  have fr: "view sd h ''response'' = Some (stringify env data)"
    and fl: "view sd h ''lastRequested'' = Some now2"
    using sd(2) sc(2) by simp_all
  from ct fr
  have "\<exists>r s'. hget c h sd = (Inr r, s') \<and> view s' = view sd \<and> truthy r
          \<and> (\<forall>f. get_prop r f = Inr (case view sd h f of None \<Rightarrow> JUndefined | Some v \<Rightarrow> JStr v))"
    by (rule contract_hget)
  then obtain rd sd' where rd: "hget c h sd = (Inr rd, sd')" "view sd' = view sd" "truthy rd"
      "\<forall>f. get_prop rd f = Inr (case view sd h f of None \<Rightarrow> JUndefined | Some v \<Rightarrow> JStr v)"
    by blast
  have rdr: "get_prop rd ''response'' = Inr (JStr (stringify env data))"
    using rd(4) fr by simp
  have m2: "hashMiddleware env cfg c now2 req sc =
      (Responded [(CACHE_HEADER, ''true''), (CACHE_HASH_HEADER, h)] (JObj [(''data'', data)]),
       sd', [Call (CHSet h ''lastRequested'' now2 g), Call (CHGet h)])"
    using assms(2-4,11,12) hh gg tb sd(1) rd(1,3) rdr
    by (simp add: hashMiddleware_def Let_def)
  have run2: "hashStage env cfg hook c now2 upstream req sc =
        (FromCache [(CACHE_HEADER, ''true''), (CACHE_HASH_HEADER, h)] (JObj [(''data'', data)]),
         sd', [Call (CHSet h ''lastRequested'' now2 g), Call (CHGet h)])"
    using m2 by (simp add: hashStage_def)
  have "view sd' h ''lastRequested'' = Some now2"
    and "view sd' h ''response'' = Some (stringify env data)"
    using fl fr rd(2) by simp_all
  with run1 run2 show ?thesis by blast
qed

theorem hash_idempotence_witness:
  "\<exists>s1 s2.
      hashStage demo_env demo_cfg False mem_cache noon ok_upstream plain_req empty_mem =
        (Relayed ok_reply, s1,
         [Call (CHSet plain_hash ''lastRequested'' noon 0), Call (CHGet plain_hash),
          Upstream (Some ''{query:{ x }}''),
          Call (CHSet plain_hash ''request'' ''{query:{ x }}'' 0),
          Call (CHSet plain_hash ''response'' ''{x:1}'' 0)])
    \<and> hashStage demo_env demo_cfg False mem_cache later ok_upstream plain_req s1 =
        (FromCache [(''X-Proxy-Cached'', ''true''), (''X-Proxy-Hash'', plain_hash)]
           (JObj [(''data'', payload)]),
         s2, [Call (CHSet plain_hash ''lastRequested'' later 0), Call (CHGet plain_hash)])
    \<and> mem_fields s2 plain_hash ''lastRequested'' = Some later
    \<and> mem_fields s2 plain_hash ''response'' = Some ''{x:1}''"
proof -
  have "get_prop (body plain_req) ''query'' = Inr (JStr plain)"
    and "truthy (JStr plain)"
    and "\<not> bypass demo_cfg plain_req"
    and "plain_hash = md5_hex demo_env (stringify demo_env (body plain_req))"
    and "plain_hash \<noteq> []"
    and "mem_fields empty_mem plain_hash ''response'' = None"
    and "decoded demo_env (ok_upstream (onProxyReq demo_env plain_req)) =
           Inr (JObj [(''data'', payload)])"
    and "cacheable (JObj [(''data'', payload)]) = Inr True"
    and "get_prop (JObj [(''data'', payload)]) ''data'' = Inr payload"
    and "stringify demo_env payload \<noteq> []"
    and "json_parse demo_env (JStr (stringify demo_env payload)) = Inr payload"
    and "0 = globalTimeout demo_cfg"
    by (simp_all add: demo_defs bypass_def mem_fields_def fields_of_def decoded_def
        cacheable_def)
  from hash_idempotence [where upstream = ok_upstream and env = demo_env and req = plain_req
      and hook = False and ?now1.0 = noon and ?now2.0 = later and c = mem_cache
      and view = mem_fields and s = empty_mem, OF mem_contract this]
  show ?thesis
    by (simp add: demo_defs onProxyReq_def CACHE_HEADER_def CACHE_HASH_HEADER_def)
qed

text \<open>
  C10. In the directive phase, when the query carries the annotation, the id and timeout
  are computed as \<open>(i, timeout)\<close>, the store's \<open>get\<close> of \<open>i\<close> gives a falsy value
  (undefined, null, the empty string, 0, false: see \<open>falsy_values\<close>) and the stripped query
  prints as \<open>text\<close>: the phase does not answer from the cache; it calls \<open>next()\<close> with the
  pending state \<open>(i, timeout)\<close> attached and the body's \<open>query\<close> replaced by \<open>text\<close>.
\<close>

theorem falsy_value_is_miss:
  assumes "get_prop (body req) ''query'' = Inr query" and "truthy query"
    and "parse env query = Inr doc" and "hasDirectives env doc"
    and "removeCacheDirective env doc = Inr nextQuery"
    and "get_prop (body req) ''variables'' = Inr variables"
    and "calculateArguments env doc variables (cacheKeyModifier cfg) req = Inr (i, timeout)"
    and "get c i s = (Inr possibleData, s1)"
    and "print env nextQuery = Inr text"
    and "\<not> truthy possibleData"
  shows "directiveMiddleware env cfg c req s =
           (Next (req\<lparr>req_hasCache := Some (i, timeout),
                       body := spread_query (body req) (JStr text)\<rparr>),
            s1, [Call (CGet i)])
       \<and> get_prop (spread_query (body req) (JStr text)) ''query'' = Inr (JStr text)"
proof -
  obtain kvs where b: "body req = JObj kvs"
    using truthy_prop_is_object [OF assms(1,2)] by blast
  have "directiveTry env cfg c req doc s =
          (Inr None, req\<lparr>req_hasCache := Some (i, timeout),
                         body := spread_query (body req) (JStr text)\<rparr>, s1, [Call (CGet i)])"
    using assms by (simp add: directiveTry_def)
  moreover have "get_prop (spread_query (body req) (JStr text)) ''query'' = Inr (JStr text)"
    by (simp add: b update_conv')
  ultimately show ?thesis
    using assms b by (simp add: directiveMiddleware_def)
qed

theorem falsy_value_is_miss_witness:
  "directiveMiddleware demo_env demo_cfg mem_cache annotated_req zero_mem =
     (Next (annotated_req\<lparr>req_hasCache := Some (''abc'', 60),
                           body := JObj [(''query'', JStr plain)]\<rparr>),
      zero_mem, [Call (CGet ''abc'')])
   \<and> get mem_cache ''abc'' zero_mem = (Inr (JNum 0), zero_mem)"
proof -
  have "get_prop (body annotated_req) ''query'' = Inr (JStr annotated)"
    and "truthy (JStr annotated)"
    and "parse demo_env (JStr annotated) = Inr annotated"
    and "hasDirectives demo_env annotated"
    and "removeCacheDirective demo_env annotated = Inr plain"
    and "get_prop (body annotated_req) ''variables'' = Inr JUndefined"
    and "calculateArguments demo_env annotated JUndefined (cacheKeyModifier demo_cfg)
           annotated_req = Inr (''abc'', 60)"
    and "get mem_cache ''abc'' zero_mem = (Inr (JNum 0), zero_mem)"
    and "print demo_env plain = Inr plain"
    and "\<not> truthy (JNum 0)"
    by (simp_all add: demo_defs mem_cache_def)
  from falsy_value_is_miss [OF this] this(8)
  show ?thesis
    by (simp add: demo_defs)
qed

end
